theory Spec2Isabelle
  imports Main "HOL-Library.Word"
begin

section \<open>The temporary allocator of foonathan/memory\<close>

text \<open>
  The header \<^verbatim>\<open>temporary_allocator.hpp\<close> declares the class \<^verbatim>\<open>temporary_allocator\<close>
  (a marker into a thread-local \<^verbatim>\<open>memory_stack<>\<close> and the flag \<^verbatim>\<open>unwind_\<close>) and defines the
  specialisation \<^verbatim>\<open>allocator_traits<temporary_allocator>\<close>. The thread-local stack is global
  state in C++; here every operation takes the stack (the arena) and returns the new one.

  \<^verbatim>\<open>std::size_t\<close> is an unsigned machine integer: a word of any width \<open>'w\<close>, whose
  multiplication wraps around. A \<^verbatim>\<open>void*\<close> is an address, a natural number; 0 is the null
  pointer. An exception or a failed \<^verbatim>\<open>assert\<close> is a value of the type \<open>error\<close>.
\<close>

datatype error = OutOfMemory | InvalidArgument | ContractViolation

subsection \<open>The arena: blocks, markers, rollback\<close>

text \<open>
  Modelled from the spec: the header \<^verbatim>\<open>stack_allocator.hpp\<close> with \<^verbatim>\<open>memory_stack<>\<close> is missing.
  A block is a contiguous chunk of raw memory (its base address stands for the buffer)
  with a capacity and a cursor marking how much is used.
\<close>

record Block =
  memory :: nat
  capacity :: nat
  cursor :: nat

text \<open>
  Modelled from the spec: the arena of \<^verbatim>\<open>memory_stack<>\<close> is missing. It owns an ordered
  chain of blocks, exactly one of which is current, with possibly reusable predecessors and
  successors, and a growth factor. \<open>backing\<close> is the state of the backing allocator.
\<close>

record 'b Arena =
  predecessors :: "Block list"
  current :: Block
  successors :: "Block list"
  growth_factor :: nat
  backing :: 'b

text \<open>
  Modelled from the spec: the type \<^verbatim>\<open>memory_stack<>::marker\<close> is missing. A marker is the
  identity of a block (its position in the chain) and the cursor at capture time.
\<close>

record Marker =
  block_identity :: nat
  marked_cursor :: nat

text \<open>
  Modelled from the spec: the backing allocator is an external collaborator,
  \<^verbatim>\<open>acquire_block(min_size) -> Block\<close>, which may fail. It is a parameter of the model: a function
  from its own state and the minimal size to a block and its new state.
\<close>

type_synonym 'b acquire = "'b \<Rightarrow> nat \<Rightarrow> (Block \<times> 'b) option"

text \<open>Modelled from the spec: the alignment check of \<^verbatim>\<open>memory_stack<>::allocate\<close> is missing.\<close>

fun is_power_of_two :: "nat \<Rightarrow> bool" where
  "is_power_of_two n = (if n \<le> 1 then n = 1 else even n \<and> is_power_of_two (n div 2))"

declare is_power_of_two.simps [simp del]

text \<open>
  Modelled from the spec: the bump-pointer arithmetic of \<^verbatim>\<open>memory_stack<>::allocate\<close> is missing.
  \<open>align_offset\<close> is the padding that brings an address up to the next multiple of the
  alignment; \<open>carve\<close> takes \<open>size\<close> bytes aligned to \<open>alignment\<close> from the remaining
  capacity of a block, if they fit.
\<close>

definition align_offset :: "nat \<Rightarrow> nat \<Rightarrow> nat" where
  "align_offset address alignment = (alignment - address mod alignment) mod alignment"

definition carve :: "Block \<Rightarrow> nat \<Rightarrow> nat \<Rightarrow> (nat \<times> Block) option" where
  "carve b sz alignment =
     (let start = cursor b + align_offset (memory b + cursor b) alignment
      in if start + sz \<le> capacity b
         then Some (memory b + start, b\<lparr>cursor := start + sz\<rparr>)
         else None)"

text \<open>
  Modelled from the spec: \<^verbatim>\<open>memory_stack<>::allocate\<close> is missing. A non-power-of-two
  alignment fails with \<open>InvalidArgument\<close>. Otherwise the request is carved from the current
  block; if that lacks room, the arena advances to the next block of the chain if one
  exists and has room (a block behind the frontier holds nothing live, so it is used from
  its start); else it requests a new block of at least
  \<open>max size (capacity current * growth_factor)\<close> bytes from the backing allocator and
  appends it as the new current block. It fails with \<open>OutOfMemory\<close> if the backing
  allocator supplies no block large enough for the request. Every failure leaves the arena
  as it was. A zero-size request is served like any other.
\<close>

definition arena_allocate ::
    "'b acquire \<Rightarrow> 'b Arena \<Rightarrow> nat \<Rightarrow> nat \<Rightarrow> (error + nat) \<times> 'b Arena" where
  "arena_allocate acquire_block a sz alignment =
     (if \<not> is_power_of_two alignment then (Inl InvalidArgument, a)
      else case carve (current a) sz alignment of
        Some (p, b) \<Rightarrow> (Inr p, a\<lparr>current := b\<rparr>)
      | None \<Rightarrow>
         (case (case successors a of
                  [] \<Rightarrow> None
                | n # ns \<Rightarrow> map_option (\<lambda>(p, b). (p, b, ns)) (carve (n\<lparr>cursor := 0\<rparr>) sz alignment)) of
            Some (p, b, ns) \<Rightarrow>
              (Inr p, a\<lparr>predecessors := predecessors a @ [current a], current := b,
                         successors := ns\<rparr>)
          | None \<Rightarrow>
             (case acquire_block (backing a) (max sz (capacity (current a) * growth_factor a)) of
                None \<Rightarrow> (Inl OutOfMemory, a)
              | Some (n, s) \<Rightarrow>
                 (case carve (n\<lparr>cursor := 0\<rparr>) sz alignment of
                    None \<Rightarrow> (Inl OutOfMemory, a)
                  | Some (p, b) \<Rightarrow>
                      (Inr p, a\<lparr>predecessors := predecessors a @ current a # successors a,
                                 current := b, successors := [], backing := s\<rparr>)))))"

text \<open>
  Modelled from the spec: the \<^verbatim>\<open>marker()\<close> operation of the arena is missing. It
  captures the identity of the current block and its cursor: the allocation frontier.
\<close>

definition arena_marker :: "'b Arena \<Rightarrow> Marker" where
  "arena_marker a =
     \<lparr>block_identity = length (predecessors a), marked_cursor = cursor (current a)\<rparr>"

text \<open>
  Modelled from the spec: the validity of a marker is not in the header. A marker is a
  rollback target only while it is not ahead of the arena's frontier: its block is an
  earlier block of the chain, or the current block at a cursor not beyond the current one.
\<close>

definition behind_frontier :: "Marker \<Rightarrow> 'b Arena \<Rightarrow> bool" where
  "behind_frontier m a \<longleftrightarrow>
     block_identity m < length (predecessors a)
     \<or> (block_identity m = length (predecessors a) \<and> marked_cursor m \<le> cursor (current a))"

text \<open>
  Modelled from the spec: the \<^verbatim>\<open>unwind(marker)\<close> operation of the arena is missing. It sets
  the current block to the marker's block and its cursor to the marker's cursor; the blocks
  after it become successors, kept for reuse. A marker ahead of the frontier breaks the
  stack discipline; the model takes the spec's detect-and-fail option and rejects it as a
  contract violation.
\<close>

definition unwind :: "Marker \<Rightarrow> 'b Arena \<Rightarrow> error + 'b Arena" where
  "unwind m a =
     (let chain = predecessors a @ current a # successors a; i = block_identity m
      in if behind_frontier m a
         then Inr (a\<lparr>predecessors := take i chain,
                     current := (chain ! i)\<lparr>cursor := marked_cursor m\<rparr>,
                     successors := drop (Suc i) chain\<rparr>)
         else Inl ContractViolation)"

text \<open>
  Modelled from the spec: the \<^verbatim>\<open>capacity_remaining()\<close> operation of the arena is missing:
  the remaining bytes of the current block only.
\<close>

definition capacity_remaining :: "'b Arena \<Rightarrow> nat" where
  "capacity_remaining a = capacity (current a) - cursor (current a)"

subsection \<open>The class \<^verbatim>\<open>temporary_allocator\<close>\<close>

text \<open>
  The two private members of the class, as the header declares them: \<^verbatim>\<open>marker_\<close> and
  \<^verbatim>\<open>unwind_\<close> (an identifier cannot end with an underscore here).
\<close>

record temporary_allocator =
  marker_member :: Marker
  unwind_member :: bool

text \<open>
  Modelled from the spec: the private default constructor is declared but not defined in
  the header. It binds to the thread's arena and captures a fresh marker; the new handle
  owns its rollback.
\<close>

definition default_construct :: "'b Arena \<Rightarrow> temporary_allocator" where
  "default_construct a = \<lparr>marker_member = arena_marker a, unwind_member = True\<rparr>"

text \<open>\<^verbatim>\<open>make_temporary_allocator\<close> returns a default-constructed handle (\<^verbatim>\<open>return {};\<close>).\<close>

definition make_temporary_allocator :: "'b Arena \<Rightarrow> temporary_allocator" where
  "make_temporary_allocator a = default_construct a"

text \<open>
  Modelled from the spec: \<^verbatim>\<open>temporary_allocator::allocate\<close> is declared but not defined in the
  header. It forwards to the arena's allocate.
\<close>

definition allocate ::
    "'b acquire \<Rightarrow> temporary_allocator \<Rightarrow> 'b Arena \<Rightarrow> 'w::len word \<Rightarrow> 'w word
       \<Rightarrow> (error + nat) \<times> 'b Arena" where
  "allocate acquire_block state a sz alignment =
     arena_allocate acquire_block a (unat sz) (unat alignment)"

text \<open>
  Modelled from the spec: the destructor is declared but not defined in the header. If the
  handle still owns its rollback obligation it calls \<^verbatim>\<open>unwind(marker)\<close> on the arena; an inert
  handle does nothing.
\<close>

definition destroy :: "temporary_allocator \<Rightarrow> 'b Arena \<Rightarrow> error + 'b Arena" where
  "destroy state a = (if unwind_member state then unwind (marker_member state) a else Inr a)"

text \<open>
  Modelled from the spec: the move constructor and the move assignment operator are
  declared but not defined in the header. Both transfer the marker and the rollback
  obligation to the destination and leave the moved-from handle inert. The result is the
  pair of the destination and the moved-from source.
\<close>

definition move_construct :: "temporary_allocator \<Rightarrow> temporary_allocator \<times> temporary_allocator" where
  "move_construct other =
     (\<lparr>marker_member = marker_member other, unwind_member = unwind_member other\<rparr>, other\<lparr>unwind_member := False\<rparr>)"

definition move_assign ::
    "temporary_allocator \<Rightarrow> temporary_allocator \<Rightarrow> temporary_allocator \<times> temporary_allocator" where
  "move_assign this other =
     (this\<lparr>marker_member := marker_member other, unwind_member := unwind_member other\<rparr>, other\<lparr>unwind_member := False\<rparr>)"

subsection \<open>The specialisation \<^verbatim>\<open>allocator_traits<temporary_allocator>\<close>\<close>

text \<open>
  Modelled from the spec: \<^verbatim>\<open>max_node_size\<close> is declared but not defined in the header. It
  returns the arena's remaining capacity as observed through the handle, as a
  \<^verbatim>\<open>std::size_t\<close>.
\<close>

definition max_node_size :: "temporary_allocator \<Rightarrow> 'b Arena \<Rightarrow> 'w::len word" where
  "max_node_size state a = of_nat (capacity_remaining a)"

text \<open>
  \<^verbatim>\<open>allocate_node\<close>: the \<^verbatim>\<open>assert\<close> aborts the program when the size exceeds
  \<^verbatim>\<open>max_node_size(state)\<close> (the build with assertions enabled); otherwise the call forwards
  to \<^verbatim>\<open>state.allocate\<close>.
\<close>

definition allocate_node ::
    "'b acquire \<Rightarrow> temporary_allocator \<Rightarrow> 'b Arena \<Rightarrow> 'w::len word \<Rightarrow> 'w word
       \<Rightarrow> (error + nat) \<times> 'b Arena" where
  "allocate_node acquire_block state a sz alignment =
     (if sz \<le> max_node_size state a
      then allocate acquire_block state a sz alignment
      else (Inl ContractViolation, a))"

text \<open>\<^verbatim>\<open>allocate_array\<close>: the product \<^verbatim>\<open>count * size\<close> is a \<^verbatim>\<open>std::size_t\<close> multiplication.\<close>

definition allocate_array ::
    "'b acquire \<Rightarrow> temporary_allocator \<Rightarrow> 'b Arena \<Rightarrow> 'w::len word \<Rightarrow> 'w word \<Rightarrow> 'w word
       \<Rightarrow> (error + nat) \<times> 'b Arena" where
  "allocate_array acquire_block state a count sz alignment =
     allocate_node acquire_block state a (count * sz) alignment"

text \<open>
  \<^verbatim>\<open>deallocate_node\<close> and \<^verbatim>\<open>deallocate_array\<close> have empty bodies. The result is the handle and
  the arena after the call.
\<close>

definition deallocate_node ::
    "temporary_allocator \<Rightarrow> nat \<Rightarrow> 'w::len word \<Rightarrow> 'w word \<Rightarrow> 'b Arena
       \<Rightarrow> temporary_allocator \<times> 'b Arena" where
  "deallocate_node state ptr sz alignment a = (state, a)"

definition deallocate_array ::
    "temporary_allocator \<Rightarrow> nat \<Rightarrow> 'w::len word \<Rightarrow> 'w word \<Rightarrow> 'w word \<Rightarrow> 'b Arena
       \<Rightarrow> temporary_allocator \<times> 'b Arena" where
  "deallocate_array state ptr count sz alignment a = (state, a)"

definition max_array_size :: "temporary_allocator \<Rightarrow> 'b Arena \<Rightarrow> 'w::len word" where
  "max_array_size state a = max_node_size state a"

text \<open>\<^verbatim>\<open>max_alignment\<close> returns \<^verbatim>\<open>std::size_t(-1)\<close>.\<close>

definition max_alignment :: "temporary_allocator \<Rightarrow> 'w::len word" where
  "max_alignment state = word_of_int (- 1)"

subsection \<open>Runs and a concrete arena\<close>

text \<open>
  A sequence of allocation requests (size, alignment) made through one handle; a request
  that fails leaves the arena as it was and the run goes on.
\<close>

fun allocations ::
    "'b acquire \<Rightarrow> temporary_allocator \<Rightarrow> 'b Arena \<Rightarrow> ('w::len word \<times> 'w word) list \<Rightarrow> 'b Arena" where
  "allocations acquire_block state a [] = a"
| "allocations acquire_block state a ((sz, alignment) # rs) =
     allocations acquire_block state (snd (allocate acquire_block state a sz alignment)) rs"

text \<open>
  A backing allocator for the concrete evaluations: it hands out consecutive chunks of the
  address range below \<open>limit\<close>; its state is the next free address.
\<close>

definition bump_backing :: "nat \<Rightarrow> nat acquire" where
  "bump_backing limit next_free n =
     (if next_free + n \<le> limit then Some (\<lparr>memory = next_free, capacity = n, cursor = 0\<rparr>, next_free + n)
      else None)"

text \<open>An arena of one empty block of 64 bytes at address 4096, growth factor 2.\<close>

definition arena0 :: "nat Arena" where
  "arena0 = \<lparr>predecessors = [], current = \<lparr>memory = 4096, capacity = 64, cursor = 0\<rparr>,
             successors = [], growth_factor = 2, backing = 8192\<rparr>"

text \<open>
  The chain of all blocks of an arena, in order. A run that starts at the arena \<open>a0\<close>
  keeps the frontier of \<open>a0\<close>: the marker of \<open>a0\<close> stays behind the frontier, the blocks
  before its block stay as they were, and its block stays the same block (only the cursor
  moves).
\<close>

definition block_chain :: "'b Arena \<Rightarrow> Block list" where
  "block_chain a = predecessors a @ current a # successors a"

definition frontier_kept :: "'b Arena \<Rightarrow> 'b Arena \<Rightarrow> bool" where
  "frontier_kept a0 a \<longleftrightarrow>
     behind_frontier (arena_marker a0) a
     \<and> take (length (predecessors a0)) (block_chain a) = predecessors a0
     \<and> (block_chain a ! length (predecessors a0))\<lparr>cursor := cursor (current a0)\<rparr> = current a0"

text \<open>
  An arena in use: one full-ish block before the current block, whose cursor is at 100;
  the same arena after the requests (8, 8) and (100, 16), the second one served by a new
  block; and that arena rolled back to the frontier of the first.
\<close>

definition arena1 :: "nat Arena" where
  "arena1 = \<lparr>predecessors = [\<lparr>memory = 4096, capacity = 64, cursor = 36\<rparr>],
             current = \<lparr>memory = 8192, capacity = 128, cursor = 100\<rparr>,
             successors = [], growth_factor = 2, backing = 8320\<rparr>"

definition arena1_grown :: "nat Arena" where
  "arena1_grown = \<lparr>predecessors = [\<lparr>memory = 4096, capacity = 64, cursor = 36\<rparr>,
                                   \<lparr>memory = 8192, capacity = 128, cursor = 112\<rparr>],
             current = \<lparr>memory = 8320, capacity = 256, cursor = 100\<rparr>,
             successors = [], growth_factor = 2, backing = 8576\<rparr>"

definition arena1_unwound :: "nat Arena" where
  "arena1_unwound = \<lparr>predecessors = [\<lparr>memory = 4096, capacity = 64, cursor = 36\<rparr>],
             current = \<lparr>memory = 8192, capacity = 128, cursor = 100\<rparr>,
             successors = [\<lparr>memory = 8320, capacity = 256, cursor = 100\<rparr>],
             growth_factor = 2, backing = 8576\<rparr>"

section \<open>Properties\<close>

lemma is_power_of_two_iff: "is_power_of_two n \<longleftrightarrow> (\<exists>k. n = 2 ^ k)"
proof (induction n rule: is_power_of_two.induct)
  case (1 n)
  show ?case
  proof (cases "n \<le> 1")
    case True
    show ?thesis
    proof (cases "n = 1")
      case True
      then have "n = 2 ^ 0" by simp
      then have "\<exists>k. n = 2 ^ k" by blast
      moreover have "is_power_of_two n"
        by (subst is_power_of_two.simps) (simp add: True)
      ultimately show ?thesis by simp
    next
      case False
      with \<open>n \<le> 1\<close> have "n = 0" by simp
      then have "\<not> is_power_of_two n"
        by (subst is_power_of_two.simps) simp
      with \<open>n = 0\<close> show ?thesis by simp
    qed
  next
    case False
    have "(even n \<and> (\<exists>k. n div 2 = 2 ^ k)) \<longleftrightarrow> (\<exists>k. n = 2 ^ k)"
    proof
      assume h: "even n \<and> (\<exists>k. n div 2 = 2 ^ k)"
      then obtain k where "n div 2 = 2 ^ k" by blast
      with h have "n = 2 ^ Suc k" by auto
      then show "\<exists>k. n = 2 ^ k" by blast
    next
      assume "\<exists>k. n = 2 ^ k"
      then obtain k where k: "n = 2 ^ k" by blast
      with False obtain j where "k = Suc j" by (cases k) auto
      with k show "even n \<and> (\<exists>k. n div 2 = 2 ^ k)" by auto
    qed
    with 1 False show ?thesis by (subst is_power_of_two.simps) simp
  qed
qed

lemma is_power_of_two_pos: "is_power_of_two n \<Longrightarrow> 0 < n"
  by (auto simp: is_power_of_two_iff)

lemma align_offset_aligned:
  assumes "0 < alignment"
  shows "(address + align_offset address alignment) mod alignment = 0"
proof -
  from assms have "address mod alignment \<le> alignment" by simp
  then have "(address mod alignment + (alignment - address mod alignment)) mod alignment = 0"
    by simp
  then show ?thesis
    unfolding align_offset_def by (simp add: mod_simps)
qed

lemma carve_aligned:
  assumes "carve b sz alignment = Some (p, b')" and "0 < alignment"
  shows "p mod alignment = 0"
proof -
  from assms(1) have "p = (memory b + cursor b) + align_offset (memory b + cursor b) alignment"
    by (auto simp: carve_def Let_def split: if_splits)
  with assms(2) show ?thesis by (simp only: align_offset_aligned)
qed

lemma carve_cursor:
  assumes "carve b sz alignment = Some (p, b')"
  shows "cursor b \<le> cursor b'"
  using assms by (auto simp: carve_def Let_def split: if_splits)

lemma arena_allocate_aligned:
  assumes "arena_allocate acq a sz alignment = (Inr p, a')"
  shows "p mod alignment = 0"
  using assms
  by (auto simp: arena_allocate_def split: if_splits option.splits list.splits prod.splits
           dest: carve_aligned is_power_of_two_pos)

lemma arena_allocate_failure:
  assumes "arena_allocate acq a sz alignment = (Inl e, a')"
  shows "a' = a \<and> e \<noteq> ContractViolation"
  using assms
  by (auto simp: arena_allocate_def split: if_splits option.splits list.splits prod.splits)

lemma arena_allocate_InvalidArgument:
  "fst (arena_allocate acq a sz alignment) = Inl InvalidArgument \<longleftrightarrow> \<not> is_power_of_two alignment"
  by (auto simp: arena_allocate_def split: if_splits option.splits list.splits prod.splits)

lemma carve_block:
  assumes "carve b sz alignment = Some (p, b')"
  shows "\<exists>c. b' = b\<lparr>cursor := c\<rparr>"
  using assms by (auto simp: carve_def Let_def split: if_splits)

lemma frontier_kept_refl: "frontier_kept a a"
  by (simp add: frontier_kept_def behind_frontier_def arena_marker_def block_chain_def)

lemma frontier_kept_cases:
  assumes "frontier_kept a0 a"
  obtains (before) "length (predecessors a0) < length (predecessors a)"
      "take (length (predecessors a0)) (predecessors a) = predecessors a0"
      "(predecessors a ! length (predecessors a0))\<lparr>cursor := cursor (current a0)\<rparr> = current a0"
    | (at) "length (predecessors a0) = length (predecessors a)"
      "cursor (current a0) \<le> cursor (current a)"
      "predecessors a = predecessors a0"
      "(current a)\<lparr>cursor := cursor (current a0)\<rparr> = current a0"
proof -
  from assms have "length (predecessors a0) < length (predecessors a)
      \<or> (length (predecessors a0) = length (predecessors a)
          \<and> cursor (current a0) \<le> cursor (current a))"
    by (simp add: frontier_kept_def behind_frontier_def arena_marker_def)
  then show thesis
  proof
    assume l: "length (predecessors a0) < length (predecessors a)"
    with assms have "take (length (predecessors a0)) (predecessors a) = predecessors a0"
      and "(predecessors a ! length (predecessors a0))\<lparr>cursor := cursor (current a0)\<rparr>
        = current a0"
      by (simp_all add: frontier_kept_def block_chain_def nth_append)
    with l show thesis by (rule before)
  next
    assume e: "length (predecessors a0) = length (predecessors a)
          \<and> cursor (current a0) \<le> cursor (current a)"
    with assms have "predecessors a = predecessors a0"
      and "(current a)\<lparr>cursor := cursor (current a0)\<rparr> = current a0"
      by (simp_all add: frontier_kept_def block_chain_def nth_append)
    with e show thesis by (auto intro: at)
  qed
qed

lemma frontier_keptI_before:
  assumes "length (predecessors a0) < length (predecessors a)"
    and "take (length (predecessors a0)) (predecessors a) = predecessors a0"
    and "(predecessors a ! length (predecessors a0))\<lparr>cursor := cursor (current a0)\<rparr> = current a0"
  shows "frontier_kept a0 a"
  using assms
  by (simp add: frontier_kept_def behind_frontier_def arena_marker_def block_chain_def
      nth_append)

lemma frontier_keptI_at:
  assumes "predecessors a = predecessors a0"
    and "cursor (current a0) \<le> cursor (current a)"
    and "(current a)\<lparr>cursor := cursor (current a0)\<rparr> = current a0"
  shows "frontier_kept a0 a"
  using assms
  by (simp add: frontier_kept_def behind_frontier_def arena_marker_def block_chain_def)

lemma frontier_kept_current:
  assumes "frontier_kept a0 a" and "cursor (current a) \<le> c"
  shows "frontier_kept a0 (a\<lparr>current := (current a)\<lparr>cursor := c\<rparr>\<rparr>)"
  using assms(1)
proof (cases rule: frontier_kept_cases)
  case before
  then show ?thesis by (intro frontier_keptI_before) simp_all
next
  case at
  with assms(2) show ?thesis by (intro frontier_keptI_at) simp_all
qed

lemma frontier_kept_advance:
  assumes "frontier_kept a0 a"
  shows "frontier_kept a0 (a\<lparr>predecessors := predecessors a @ [current a], current := b,
           successors := ns\<rparr>)"
  using assms
proof (cases rule: frontier_kept_cases)
  case before
  then show ?thesis by (intro frontier_keptI_before) (simp_all add: nth_append)
next
  case at
  then show ?thesis by (intro frontier_keptI_before) (simp_all add: nth_append)
qed

lemma frontier_kept_append:
  assumes "frontier_kept a0 a"
  shows "frontier_kept a0 (a\<lparr>predecessors := predecessors a @ current a # successors a,
           current := b, successors := [], backing := s\<rparr>)"
  using assms
proof (cases rule: frontier_kept_cases)
  case before
  then show ?thesis by (intro frontier_keptI_before) (simp_all add: nth_append)
next
  case at
  then show ?thesis by (intro frontier_keptI_before) (simp_all add: nth_append)
qed

lemma arena_allocate_frontier_kept:
  assumes "frontier_kept a0 a"
  shows "frontier_kept a0 (snd (arena_allocate acq a sz alignment))"
proof (cases "is_power_of_two alignment")
  case False
  with assms show ?thesis by (simp add: arena_allocate_def)
next
  case pow: True
  show ?thesis
  proof (cases "carve (current a) sz alignment")
    case (Some r)
    obtain p b where r: "r = (p, b)" by (cases r)
    from Some r carve_block obtain c where b: "b = (current a)\<lparr>cursor := c\<rparr>" by blast
    from Some r have "cursor (current a) \<le> cursor b" by (auto dest: carve_cursor)
    with b have "cursor (current a) \<le> c" by simp
    with assms have "frontier_kept a0 (a\<lparr>current := (current a)\<lparr>cursor := c\<rparr>\<rparr>)"
      by (rule frontier_kept_current)
    with pow Some r b show ?thesis by (simp add: arena_allocate_def)
  next
    case None
    with pow assms show ?thesis
      by (auto simp: arena_allocate_def frontier_kept_advance frontier_kept_append
          split: option.splits list.splits prod.splits)
  qed
qed

lemma allocations_frontier_kept:
  assumes "frontier_kept a0 a"
  shows "frontier_kept a0 (allocations acq state a reqs)"
  using assms
proof (induction reqs arbitrary: a)
  case Nil
  then show ?case by simp
next
  case (Cons r reqs)
  obtain sz alignment where r: "r = (sz, alignment)" by (cases r)
  from Cons.prems have "frontier_kept a0 (snd (allocate acq state a sz alignment))"
    unfolding allocate_def by (rule arena_allocate_frontier_kept)
  then show ?case unfolding r by (simp add: Cons.IH)
qed

lemma unwind_frontier_kept:
  assumes "frontier_kept a0 a"
  shows "\<exists>a'. unwind (arena_marker a0) a = Inr a'
           \<and> arena_marker a' = arena_marker a0
           \<and> predecessors a' = predecessors a0
           \<and> current a' = current a0
           \<and> growth_factor a' = growth_factor a"
  using assms
  by (simp add: frontier_kept_def unwind_def Let_def arena_marker_def block_chain_def)

lemma make_temporary_allocator_captures:
  "marker_member (make_temporary_allocator a) = arena_marker a
   \<and> unwind_member (make_temporary_allocator a)"
  by (simp add: make_temporary_allocator_def default_construct_def)

lemma arena_allocate_growth_factor:
  "growth_factor (snd (arena_allocate acq a sz alignment)) = growth_factor a"
  by (auto simp: arena_allocate_def split: option.splits list.splits prod.splits)

subsection \<open>Concrete evaluations\<close>

lemma is_power_of_two_1: "is_power_of_two 1"
  by (subst is_power_of_two.simps) simp

lemma is_power_of_two_8: "is_power_of_two 8"
proof -
  have "(8::nat) = 2 ^ 3" by simp
  then show ?thesis unfolding is_power_of_two_iff by (rule exI)
qed

lemma not_is_power_of_two_3: "\<not> is_power_of_two 3"
  by (subst is_power_of_two.simps) simp

lemma not_power_3: "\<nexists>k. (3::nat) = 2 ^ k"
  using not_is_power_of_two_3 by (simp add: is_power_of_two_iff)

lemma max_node_size_arena0: "max_node_size state arena0 = (64 :: 64 word)"
  by (simp add: max_node_size_def capacity_remaining_def arena0_def)

lemma carve_arena0_8: "carve (current arena0) 8 8 = Some (4096, \<lparr>memory = 4096, capacity = 64, cursor = 8\<rparr>)"
  by (simp add: carve_def align_offset_def arena0_def)

lemma allocate_arena0_8:
  "allocate acq state arena0 (8 :: 64 word) 8
     = (Inr 4096, arena0\<lparr>current := \<lparr>memory = 4096, capacity = 64, cursor = 8\<rparr>\<rparr>)"
  by (simp add: allocate_def arena_allocate_def carve_arena0_8 is_power_of_two_8)

lemma is_power_of_two_16: "is_power_of_two 16"
proof -
  have "(16::nat) = 2 ^ 4" by simp
  then show ?thesis unfolding is_power_of_two_iff by (rule exI)
qed

lemma carve_arena1_8:
  "carve \<lparr>memory = 8192, capacity = 128, cursor = 100\<rparr> 8 8
     = Some (8296, \<lparr>memory = 8192, capacity = 128, cursor = 112\<rparr>)"
  by (simp add: carve_def align_offset_def)

lemma carve_arena1_100:
  "carve \<lparr>memory = 8192, capacity = 128, cursor = 112\<rparr> 100 16 = None"
  by (simp add: carve_def align_offset_def)

lemma carve_fresh_100:
  "carve \<lparr>memory = 8320, capacity = 256, cursor = 0\<rparr> 100 16
     = Some (8320, \<lparr>memory = 8320, capacity = 256, cursor = 100\<rparr>)"
  by (simp add: carve_def align_offset_def)

lemma bump_backing_256:
  "bump_backing 100000 8320 256 = Some (\<lparr>memory = 8320, capacity = 256, cursor = 0\<rparr>, 8576)"
  by (simp add: bump_backing_def)

lemma allocate_arena1_first:
  "snd (allocate (bump_backing 100000) state arena1 (8 :: 64 word) 8)
     = arena1\<lparr>current := \<lparr>memory = 8192, capacity = 128, cursor = 112\<rparr>\<rparr>"
proof -
  have "current arena1 = \<lparr>memory = 8192, capacity = 128, cursor = 100\<rparr>"
    by (simp add: arena1_def)
  then show ?thesis
    by (simp add: allocate_def arena_allocate_def is_power_of_two_8 carve_arena1_8)
qed

lemma allocate_arena1_second:
  "snd (allocate (bump_backing 100000) state
         (arena1\<lparr>current := \<lparr>memory = 8192, capacity = 128, cursor = 112\<rparr>\<rparr>) (100 :: 64 word) 16)
     = arena1_grown"
proof -
  have "successors arena1 = []" and "backing arena1 = 8320" and "growth_factor arena1 = 2"
    and "predecessors arena1 = [\<lparr>memory = 4096, capacity = 64, cursor = 36\<rparr>]"
    by (simp_all add: arena1_def)
  then have "arena_allocate (bump_backing 100000)
         (arena1\<lparr>current := \<lparr>memory = 8192, capacity = 128, cursor = 112\<rparr>\<rparr>) 100 16
     = (Inr 8320, arena1\<lparr>current := \<lparr>memory = 8192, capacity = 128, cursor = 112\<rparr>\<rparr>
          \<lparr>predecessors := [\<lparr>memory = 4096, capacity = 64, cursor = 36\<rparr>,
                            \<lparr>memory = 8192, capacity = 128, cursor = 112\<rparr>],
           current := \<lparr>memory = 8320, capacity = 256, cursor = 100\<rparr>,
           successors := [], backing := 8576\<rparr>)"
    by (simp add: arena_allocate_def is_power_of_two_16 carve_arena1_100 bump_backing_256
        carve_fresh_100)
  then show ?thesis by (simp add: allocate_def arena1_def arena1_grown_def)
qed

lemma allocations_arena1:
  "allocations (bump_backing 100000) state arena1 [(8 :: 64 word, 8), (100, 16)] = arena1_grown"
  by (simp add: allocate_arena1_first allocate_arena1_second)

lemma unwind_arena1_grown:
  "unwind \<lparr>block_identity = Suc 0, marked_cursor = 100\<rparr> arena1_grown = Inr arena1_unwound"
  by (simp add: unwind_def Let_def behind_frontier_def arena1_grown_def arena1_unwound_def)

lemma make_temporary_allocator_arena1:
  "make_temporary_allocator arena1
     = \<lparr>marker_member = \<lparr>block_identity = 1, marked_cursor = 100\<rparr>, unwind_member = True\<rparr>"
  by (simp add: make_temporary_allocator_def default_construct_def arena_marker_def arena1_def)

lemma destroy_arena1:
  "destroy (make_temporary_allocator arena1)
     (allocations (bump_backing 100000) (make_temporary_allocator arena1) arena1
        [(8 :: 64 word, 8), (100, 16)]) = Inr arena1_unwound"
  by (simp only: allocations_arena1)
     (simp add: destroy_def make_temporary_allocator_arena1 unwind_arena1_grown)

subsection \<open>The claims\<close>

text \<open>
  Claim C1, as stated: when \<open>count * element_size\<close> overflows \<^verbatim>\<open>std::size_t\<close>,
  \<^verbatim>\<open>allocate_array\<close> fails with \<open>InvalidArgument\<close> and nothing is allocated. The code has
  no overflow check. With 64-bit sizes, \<open>count = 2^63 + 4\<close> and \<open>element_size = 2\<close>
  overflow (the product is \<open>2^64 + 8\<close>), and the call succeeds: it returns the address
  4096 and moves the cursor by the wrapped product, 8 bytes.
\<close>

theorem allocate_array_overflow_counterexample:
  "2 ^ 64 \<le> unat (9223372036854775812 :: 64 word) * unat (2 :: 64 word)
   \<and> allocate_array (bump_backing 100000) (make_temporary_allocator arena0) arena0
         (9223372036854775812 :: 64 word) 2 8
       = (Inr 4096, arena0\<lparr>current := \<lparr>memory = 4096, capacity = 64, cursor = 8\<rparr>\<rparr>)
   \<and> fst (allocate_array (bump_backing 100000) (make_temporary_allocator arena0) arena0
         (9223372036854775812 :: 64 word) 2 8) \<noteq> Inl InvalidArgument"
proof -
  have w: "(9223372036854775812 :: 64 word) * 2 = 8" by simp
  have "allocate_array (bump_backing 100000) (make_temporary_allocator arena0) arena0
          (9223372036854775812 :: 64 word) 2 8
        = allocate_node (bump_backing 100000) (make_temporary_allocator arena0) arena0
          (8 :: 64 word) 8"
    by (simp only: allocate_array_def w)
  also have "\<dots> = (Inr 4096, arena0\<lparr>current := \<lparr>memory = 4096, capacity = 64, cursor = 8\<rparr>\<rparr>)"
    by (simp add: allocate_node_def max_node_size_arena0 allocate_arena0_8)
  finally have r: "allocate_array (bump_backing 100000) (make_temporary_allocator arena0) arena0
          (9223372036854775812 :: 64 word) 2 8
        = (Inr 4096, arena0\<lparr>current := \<lparr>memory = 4096, capacity = 64, cursor = 8\<rparr>\<rparr>)" .
  have "2 ^ 64 \<le> unat (9223372036854775812 :: 64 word) * unat (2 :: 64 word)" by simp
  with r show ?thesis by simp
qed

text \<open>
  Claim C1, amended: when \<open>count * element_size\<close> overflows, \<^verbatim>\<open>allocate_array\<close> does not
  detect it: it behaves exactly as \<^verbatim>\<open>allocate_node\<close> on the wrapped product
  \<open>(count * element_size) mod 2^N\<close>. It fails with \<open>InvalidArgument\<close> only if the
  alignment is not a power of two, and whenever it fails the arena is unchanged (no partial
  allocation).
\<close>

theorem allocate_array_wraps_on_overflow:
  fixes count sz :: "'w::len word"
  assumes "2 ^ LENGTH('w) \<le> unat count * unat sz"
  shows "allocate_array acq state a count sz alignment
           = allocate_node acq state a (of_nat ((unat count * unat sz) mod 2 ^ LENGTH('w))) alignment
         \<and> (fst (allocate_array acq state a count sz alignment) = Inl InvalidArgument
              \<longrightarrow> (\<nexists>k. unat alignment = 2 ^ k))
         \<and> (\<forall>e. fst (allocate_array acq state a count sz alignment) = Inl e
              \<longrightarrow> snd (allocate_array acq state a count sz alignment) = a)"
proof -
  have "unat (count * sz) = (unat count * unat sz) mod 2 ^ LENGTH('w)"
    by (simp only: unat_word_ariths)
  then have "of_nat (unat (count * sz)) = (of_nat ((unat count * unat sz) mod 2 ^ LENGTH('w)) :: 'w word)"
    by (rule arg_cong)
  then have "count * sz = of_nat ((unat count * unat sz) mod 2 ^ LENGTH('w))"
    by (simp only: of_nat_unat ucast_id)
  then have 1: "allocate_array acq state a count sz alignment
      = allocate_node acq state a (of_nat ((unat count * unat sz) mod 2 ^ LENGTH('w))) alignment"
    by (simp only: allocate_array_def)
  have 2: "fst (allocate_array acq state a count sz alignment) = Inl InvalidArgument
      \<longrightarrow> (\<nexists>k. unat alignment = 2 ^ k)"
    using arena_allocate_InvalidArgument [of acq a "unat (count * sz)" "unat alignment"]
    by (auto simp: allocate_array_def allocate_node_def allocate_def is_power_of_two_iff
             split: if_splits)
  have 3: "\<forall>e. fst (allocate_array acq state a count sz alignment) = Inl e
      \<longrightarrow> snd (allocate_array acq state a count sz alignment) = a"
    using arena_allocate_failure [of acq a "unat (count * sz)" "unat alignment"]
    by (auto simp: allocate_array_def allocate_node_def allocate_def split: if_splits)
       (metis prod.collapse)
  from 1 2 3 show ?thesis by blast
qed

theorem allocate_array_wraps_on_overflow_witness:
  "2 ^ LENGTH(64) \<le> unat (9223372036854775812 :: 64 word) * unat (2 :: 64 word)
   \<and> allocate_array (bump_backing 100000) (make_temporary_allocator arena0) arena0
         (9223372036854775812 :: 64 word) 2 8
       = allocate_node (bump_backing 100000) (make_temporary_allocator arena0) arena0
         (8 :: 64 word) 8"
proof -
  have h: "2 ^ LENGTH(64) \<le> unat (9223372036854775812 :: 64 word) * unat (2 :: 64 word)"
    by simp
  from allocate_array_wraps_on_overflow [OF h, of "bump_backing 100000"
      "make_temporary_allocator arena0" arena0 8]
  have "allocate_array (bump_backing 100000) (make_temporary_allocator arena0) arena0
         (9223372036854775812 :: 64 word) 2 8
       = allocate_node (bump_backing 100000) (make_temporary_allocator arena0) arena0
         (of_nat ((unat (9223372036854775812 :: 64 word) * unat (2 :: 64 word)) mod 2 ^ LENGTH(64))
            :: 64 word) 8"
    by (rule conjunct1)
  moreover have "(of_nat ((unat (9223372036854775812 :: 64 word) * unat (2 :: 64 word))
      mod 2 ^ LENGTH(64)) :: 64 word) = 8"
    by simp
  ultimately show ?thesis using h by (simp only: simp_thms)
qed

text \<open>
  Claim C2: a handle made by \<^verbatim>\<open>make_temporary_allocator\<close> on the arena \<open>a0\<close>, or any
  handle that owns its rollback and holds the marker that the factory captures on \<open>a0\<close>
  (a handle it was moved to), is destroyed after any sequence of allocations made through
  it: the destruction does not fail, and the frontier of the arena after it is the frontier
  at construction: the same marker, the same blocks before the current block, and the same
  current block with the same base address, capacity and cursor.
\<close>

theorem destroy_restores_frontier:
  "(\<exists>a'. destroy (make_temporary_allocator a0)
            (allocations acq (make_temporary_allocator a0) a0 reqs) = Inr a'
          \<and> arena_marker a' = arena_marker a0
          \<and> predecessors a' = predecessors a0
          \<and> current a' = current a0)
   \<and> (unwind_member state \<and> marker_member state = marker_member (make_temporary_allocator a0)
        \<longrightarrow> (\<exists>a'. destroy state (allocations acq state a0 reqs) = Inr a'
          \<and> arena_marker a' = arena_marker a0
          \<and> predecessors a' = predecessors a0
          \<and> current a' = current a0))"
proof -
  have run: "\<exists>a'. unwind (arena_marker a0) (allocations acq h a0 reqs) = Inr a'
      \<and> arena_marker a' = arena_marker a0
      \<and> predecessors a' = predecessors a0
      \<and> current a' = current a0" for h
  proof -
    have "frontier_kept a0 (allocations acq h a0 reqs)"
      by (rule allocations_frontier_kept) (rule frontier_kept_refl)
    from unwind_frontier_kept [OF this] show ?thesis by blast
  qed
  have cap: "marker_member (make_temporary_allocator a0) = arena_marker a0"
    and own: "unwind_member (make_temporary_allocator a0)"
    using make_temporary_allocator_captures [of a0] by simp_all
  from run [of "make_temporary_allocator a0"] cap own
  have 1: "\<exists>a'. destroy (make_temporary_allocator a0)
            (allocations acq (make_temporary_allocator a0) a0 reqs) = Inr a'
          \<and> arena_marker a' = arena_marker a0
          \<and> predecessors a' = predecessors a0
          \<and> current a' = current a0"
    by (simp add: destroy_def)
  from run [of state] cap
  have 2: "unwind_member state \<and> marker_member state = marker_member (make_temporary_allocator a0)
        \<longrightarrow> (\<exists>a'. destroy state (allocations acq state a0 reqs) = Inr a'
          \<and> arena_marker a' = arena_marker a0
          \<and> predecessors a' = predecessors a0
          \<and> current a' = current a0)"
    by (simp add: destroy_def)
  from 1 2 show ?thesis by (rule conjI)
qed

theorem destroy_restores_frontier_witness:
  "unwind_member (make_temporary_allocator arena1)
   \<and> marker_member (make_temporary_allocator arena1) = \<lparr>block_identity = 1, marked_cursor = 100\<rparr>
   \<and> destroy (make_temporary_allocator arena1)
        (allocations (bump_backing 100000) (make_temporary_allocator arena1) arena1
           [(8 :: 64 word, 8), (100, 16)]) = Inr arena1_unwound
   \<and> arena_marker arena1_unwound = arena_marker arena1
   \<and> predecessors arena1_unwound = predecessors arena1
   \<and> current arena1_unwound = current arena1"
proof -
  have h: "unwind_member (make_temporary_allocator arena1)
      \<and> marker_member (make_temporary_allocator arena1)
          = marker_member (make_temporary_allocator arena1)"
    by (simp add: make_temporary_allocator_arena1)
  from destroy_restores_frontier [of arena1 "bump_backing 100000"
      "[(8 :: 64 word, 8), (100, 16)]" "make_temporary_allocator arena1"] h
  have "\<exists>a'. destroy (make_temporary_allocator arena1)
        (allocations (bump_backing 100000) (make_temporary_allocator arena1) arena1
           [(8 :: 64 word, 8), (100, 16)]) = Inr a'
      \<and> arena_marker a' = arena_marker arena1
      \<and> predecessors a' = predecessors arena1
      \<and> current a' = current arena1"
    by blast
  then have r: "arena_marker arena1_unwound = arena_marker arena1
      \<and> predecessors arena1_unwound = predecessors arena1
      \<and> current arena1_unwound = current arena1"
    unfolding destroy_arena1 by simp
  have u: "unwind_member (make_temporary_allocator arena1)"
    and m: "marker_member (make_temporary_allocator arena1)
      = \<lparr>block_identity = 1, marked_cursor = 100\<rparr>"
    by (simp_all add: make_temporary_allocator_arena1)
  from u m destroy_arena1 r show ?thesis by (intro conjI) simp_all
qed

text \<open>
  Claim C3: move construction and move assignment give the destination the marker and the
  rollback obligation of the source, and leave the source inert: destroying the moved-from
  source changes no arena, and destroying the destination of a source that owned its
  rollback is exactly one \<^verbatim>\<open>unwind\<close> to the source's original marker.
\<close>

theorem move_transfers_rollback:
  "marker_member (fst (move_construct other)) = marker_member other
   \<and> unwind_member (fst (move_construct other)) = unwind_member other
   \<and> \<not> unwind_member (snd (move_construct other))
   \<and> destroy (snd (move_construct other)) a = Inr a
   \<and> (unwind_member other \<longrightarrow>
        destroy (fst (move_construct other)) a = unwind (marker_member other) a)
   \<and> marker_member (fst (move_assign this other)) = marker_member other
   \<and> unwind_member (fst (move_assign this other)) = unwind_member other
   \<and> \<not> unwind_member (snd (move_assign this other))
   \<and> destroy (snd (move_assign this other)) a = Inr a
   \<and> (unwind_member other \<longrightarrow>
        destroy (fst (move_assign this other)) a = unwind (marker_member other) a)"
  by (simp add: move_construct_def move_assign_def destroy_def)

theorem move_transfers_rollback_witness:
  "unwind_member (make_temporary_allocator arena0)
   \<and> destroy (fst (move_construct (make_temporary_allocator arena0))) arena0
       = unwind (arena_marker arena0) arena0
   \<and> destroy (fst (move_assign (make_temporary_allocator arena0)
         (make_temporary_allocator arena0))) arena0
       = unwind (arena_marker arena0) arena0
   \<and> destroy (snd (move_construct (make_temporary_allocator arena0))) arena0 = Inr arena0"
  using move_transfers_rollback [of "make_temporary_allocator arena0" arena0
      "make_temporary_allocator arena0"]
  by (simp add: make_temporary_allocator_def default_construct_def)

text \<open>
  Claim C4: when \<open>size \<le> max_node_size(state)\<close>, \<^verbatim>\<open>allocate_node\<close> is
  \<^verbatim>\<open>state.allocate(size, alignment)\<close> and the assertion does not fire; when
  \<open>size > max_node_size(state)\<close> the assertion fires: the call ends in a contract violation,
  not in one of the errors of \<^verbatim>\<open>allocate\<close>, and the arena is untouched.
\<close>

theorem allocate_node_contract:
  "(sz \<le> max_node_size state a \<longrightarrow>
      allocate_node acq state a sz alignment = allocate acq state a sz alignment
      \<and> fst (allocate_node acq state a sz alignment) \<noteq> Inl ContractViolation)
   \<and> (max_node_size state a < sz \<longrightarrow>
      allocate_node acq state a sz alignment = (Inl ContractViolation, a))"
proof -
  have "fst (allocate acq state a sz alignment) \<noteq> Inl ContractViolation"
    using arena_allocate_failure [of acq a "unat sz" "unat alignment" ContractViolation]
    by (cases "allocate acq state a sz alignment") (auto simp: allocate_def)
  then show ?thesis by (auto simp: allocate_node_def)
qed

theorem allocate_node_contract_witness:
  "(8 :: 64 word) \<le> max_node_size (make_temporary_allocator arena0) arena0
   \<and> allocate_node (bump_backing 100000) (make_temporary_allocator arena0) arena0 (8 :: 64 word) 8
       = (Inr 4096, arena0\<lparr>current := \<lparr>memory = 4096, capacity = 64, cursor = 8\<rparr>\<rparr>)
   \<and> max_node_size (make_temporary_allocator arena0) arena0 < (65 :: 64 word)
   \<and> allocate_node (bump_backing 100000) (make_temporary_allocator arena0) arena0 (65 :: 64 word) 8
       = (Inl ContractViolation, arena0)"
  using allocate_node_contract [of "8 :: 64 word" "make_temporary_allocator arena0" arena0
      "bump_backing 100000" 8]
    allocate_node_contract [of "65 :: 64 word" "make_temporary_allocator arena0" arena0
      "bump_backing 100000" 8]
  by (simp add: max_node_size_arena0 allocate_arena0_8)

text \<open>
  Claim C5: for every handle, pointer (null included), size, count and alignment,
  \<^verbatim>\<open>deallocate_node\<close> and \<^verbatim>\<open>deallocate_array\<close> leave the handle and the arena as they
  were; they have no failure outcome.
\<close>

theorem deallocate_is_noop:
  "deallocate_node state ptr sz alignment a = (state, a)
   \<and> deallocate_array state ptr count sz alignment a = (state, a)"
  by (simp add: deallocate_node_def deallocate_array_def)

text \<open>
  Claim C6: when \<open>count * element_size\<close> does not overflow, \<^verbatim>\<open>allocate_array\<close> returns
  the same result and the same arena as \<^verbatim>\<open>allocate_node\<close> on the product, which is the
  size whose value is exactly \<open>count * element_size\<close>.
\<close>

theorem allocate_array_is_allocate_node:
  fixes count sz :: "'w::len word"
  assumes "unat count * unat sz < 2 ^ LENGTH('w)"
  shows "allocate_array acq state a count sz alignment
           = allocate_node acq state a (of_nat (unat count * unat sz)) alignment
         \<and> unat (of_nat (unat count * unat sz) :: 'w word) = unat count * unat sz"
proof -
  have "count * sz = of_nat (unat count * unat sz)" by simp
  moreover from assms have "unat (of_nat (unat count * unat sz) :: 'w word) = unat count * unat sz"
    by (simp only: unat_of_nat mod_less)
  ultimately show ?thesis by (simp only: allocate_array_def)
qed

theorem allocate_array_is_allocate_node_witness:
  "unat (3 :: 64 word) * unat (5 :: 64 word) < 2 ^ LENGTH(64)
   \<and> allocate_array (bump_backing 100000) (make_temporary_allocator arena0) arena0 (3 :: 64 word) 5 8
       = allocate_node (bump_backing 100000) (make_temporary_allocator arena0) arena0 (15 :: 64 word) 8"
  using allocate_array_is_allocate_node
    [of "3 :: 64 word" 5 "bump_backing 100000" "make_temporary_allocator arena0" arena0 8]
  by simp

text \<open>
  Claim C7: \<^verbatim>\<open>max_alignment\<close> is the largest value of \<^verbatim>\<open>std::size_t\<close>,
  \<open>2^N - 1\<close>: no alignment is above it.
\<close>

theorem max_alignment_unbounded:
  "unat (max_alignment state :: 'w::len word) = 2 ^ LENGTH('w) - 1
   \<and> (\<forall>x :: 'w word. x \<le> max_alignment state)"
  by (simp add: max_alignment_def unsigned_minus_1_eq_mask mask_eq_exp_minus_1)

text \<open>
  Claim C8: the address returned by a successful \<^verbatim>\<open>allocate(size, alignment)\<close> on a
  handle is a multiple of the alignment.
\<close>

theorem allocate_aligned:
  assumes "allocate acq state a sz alignment = (Inr p, a')"
  shows "p mod unat alignment = 0"
  using assms unfolding allocate_def by (rule arena_allocate_aligned)

theorem allocate_aligned_witness:
  "allocate (bump_backing 100000) (make_temporary_allocator arena0) arena0 (8 :: 64 word) 8
     = (Inr 4096, arena0\<lparr>current := \<lparr>memory = 4096, capacity = 64, cursor = 8\<rparr>\<rparr>)
   \<and> (4096 :: nat) mod unat (8 :: 64 word) = 0"
proof -
  have h: "allocate (bump_backing 100000) (make_temporary_allocator arena0) arena0 (8 :: 64 word) 8
     = (Inr 4096, arena0\<lparr>current := \<lparr>memory = 4096, capacity = 64, cursor = 8\<rparr>\<rparr>)"
    by (rule allocate_arena0_8)
  from h allocate_aligned [OF h] show ?thesis by (rule conjI)
qed

text \<open>
  Claim C9: when the alignment is not a power of two, \<^verbatim>\<open>allocate(size, alignment)\<close> fails
  with \<open>InvalidArgument\<close> and the arena is unchanged.
\<close>

theorem allocate_rejects_bad_alignment:
  assumes "\<nexists>k. unat alignment = 2 ^ k"
  shows "allocate acq state a sz alignment = (Inl InvalidArgument, a)"
  using assms by (simp add: allocate_def arena_allocate_def is_power_of_two_iff)

theorem allocate_rejects_bad_alignment_witness:
  "(\<nexists>k. unat (3 :: 64 word) = 2 ^ k)
   \<and> allocate (bump_backing 100000) (make_temporary_allocator arena0) arena0 (5 :: 64 word) 3
       = (Inl InvalidArgument, arena0)"
proof -
  have h: "\<nexists>k. unat (3 :: 64 word) = 2 ^ k"
    using not_power_3 by simp
  from h allocate_rejects_bad_alignment [OF h] show ?thesis by (rule conjI)
qed

text \<open>
  Claim C10: \<^verbatim>\<open>max_array_size(state)\<close> equals \<^verbatim>\<open>max_node_size(state)\<close>: the same bound in
  bytes; it takes no element size or count to divide by.
\<close>

theorem max_array_size_is_max_node_size:
  "(max_array_size state a :: 'w::len word) = max_node_size state a"
  by (simp add: max_array_size_def)

end
